theory Spec2Isabelle
  imports Complex_Main
begin

section \<open>The diff engine of the two-workspace block editor (src/editor.js)\<close>

text \<open>
  The editor shows two Blockly workspaces, "mine" and "previous", and on every change
  recomputes which blocks, next-statement connections and field values differ between
  them. This theory embeds the functions of \<^verbatim>\<open>src/editor.js\<close> that carry that logic
  and states the properties of the specification over them.
\<close>

subsection \<open>JavaScript \<^verbatim>\<open>Set\<close>\<close>

text \<open>
  A JavaScript \<^verbatim>\<open>Set\<close> keeps its members in insertion order and without duplicates; it
  is a list here, the head being the oldest member. \<^verbatim>\<open>for (const e of s)\<close> visits the
  list from the head.
\<close>

type_synonym 'a js_set = "'a list"

definition Set_has :: "'a js_set \<Rightarrow> 'a \<Rightarrow> bool" where
  "Set_has s e = (e \<in> set s)"

definition Set_add :: "'a \<Rightarrow> 'a js_set \<Rightarrow> 'a js_set" where
  "Set_add e s = (if Set_has s e then s else s @ [e])"

definition Set_delete :: "'a \<Rightarrow> 'a js_set \<Rightarrow> 'a js_set" where
  "Set_delete e s = filter (\<lambda>x. x \<noteq> e) s"

text \<open>
  \<^verbatim>\<open>intersection(setA, setB)\<close> (lines 445-453): walk \<^verbatim>\<open>setB\<close>, keep what \<^verbatim>\<open>setA\<close> has.
\<close>

definition intersection :: "'a js_set \<Rightarrow> 'a js_set \<Rightarrow> 'a js_set" where
  "intersection setA setB =
     fold (\<lambda>elem acc. if Set_has setA elem then Set_add elem acc else acc) setB []"

text \<open>
  \<^verbatim>\<open>difference(setA, setB)\<close> (lines 455-461): copy \<^verbatim>\<open>setA\<close>, delete every member of
  \<^verbatim>\<open>setB\<close> from the copy.
\<close>

definition difference :: "'a js_set \<Rightarrow> 'a js_set \<Rightarrow> 'a js_set" where
  "difference setA setB = fold Set_delete setB setA"

subsection \<open>Values, fields, connections, blocks, workspaces\<close>

text \<open>
  A field's state is a JSON tree. Numbers are rationals: every finite double is one, and
  only their equality is used.
\<close>

datatype json =
    JNull
  | JBool bool
  | JNum rat
  | JStr string
  | JArr "json list"
  | JObj "(string \<times> json) list"

datatype connection_type = INPUT_VALUE | OUTPUT_VALUE | NEXT_STATEMENT | PREVIOUS_STATEMENT

text \<open>
  A connection as the editor reads it: its \<^verbatim>\<open>type\<close>, the name of
  \<^verbatim>\<open>getParentInput()\<close> when there is one, and the id of \<^verbatim>\<open>targetBlock()\<close> when there is
  one.
\<close>

record connection =
  ctype :: connection_type
  parent_input :: "string option"
  target :: "string option"

record block_field =
  fname :: string
  serializable :: bool
  fstate :: json

record input =
  iname :: string
  fieldRow :: "block_field list"

text \<open>
  \<^verbatim>\<open>xy\<close> is \<^verbatim>\<open>getRelativeToSurfaceXY()\<close>, \<^verbatim>\<open>connections\<close> is \<^verbatim>\<open>getConnections_()\<close>.
\<close>

record block =
  block_id :: string
  inputList :: "input list"
  connections :: "connection list"
  xy :: "rat \<times> rat"

text \<open>
  A workspace: its id, \<^verbatim>\<open>getAllBlocks()\<close>, \<^verbatim>\<open>scrollY\<close>, \<^verbatim>\<open>scale\<close> and the two entries of
  \<^verbatim>\<open>getMetrics()\<close> that the scroll synchronizer reads.
\<close>

record workspace =
  workspace_id :: string
  all_blocks :: "block list"
  scrollY :: rat
  ws_scale :: rat
  scrollLeft :: rat
  scrollTop :: rat

text \<open>
  \<^verbatim>\<open>getBlockById(id)\<close>: the block of the workspace with that id, \<^verbatim>\<open>null\<close> (here
  \<open>None\<close>) when there is none.
\<close>

definition getBlockById :: "workspace \<Rightarrow> string \<Rightarrow> block option" where
  "getBlockById ws i = find (\<lambda>b. block_id b = i) (all_blocks ws)"

text \<open>\<^verbatim>\<open>get_ids(blocks)\<close> (lines 463-474).\<close>

definition get_ids :: "block list \<Rightarrow> string js_set" where
  "get_ids blocks = fold (\<lambda>block ids. Set_add (block_id block) ids) blocks []"

subsection \<open>Edge keys\<close>

text \<open>
  \<^verbatim>\<open>get_connections(blocks)\<close> (lines 476-515). For a next-statement connection the key is
  \<^verbatim>\<open>block.id+' '+name+' '+target_id\<close>, where \<^verbatim>\<open>name\<close> is the parent input's name or
  \<^verbatim>\<open>'next'\<close> (lines 490-499) and \<^verbatim>\<open>target_id\<close> is the target block's id or \<^verbatim>\<open>'none'\<close>
  (lines 500-509).
\<close>

definition connection_name :: "connection \<Rightarrow> string" where
  "connection_name connection =
     (case parent_input connection of Some n \<Rightarrow> n | None \<Rightarrow> ''next'')"

definition connection_target_id :: "connection \<Rightarrow> string" where
  "connection_target_id connection =
     (case target connection of Some t \<Rightarrow> t | None \<Rightarrow> ''none'')"

definition edge_key :: "block \<Rightarrow> connection \<Rightarrow> string" where
  "edge_key block connection =
     block_id block @ '' '' @ connection_name connection @ '' ''
       @ connection_target_id connection"

definition get_connections :: "block list \<Rightarrow> string js_set" where
  "get_connections blocks =
     fold (\<lambda>block connections_set.
             fold (\<lambda>connection acc.
                     if ctype connection = NEXT_STATEMENT
                     then Set_add (edge_key block connection) acc else acc)
                  (connections block) connections_set)
          blocks []"

text \<open>
  \<^verbatim>\<open>id.split(' ')\<close> of JavaScript, for a separator of one character: the pieces between
  the separators, empty pieces included, so that the empty string gives one empty piece.
\<close>

fun String_split :: "char \<Rightarrow> string \<Rightarrow> string list" where
  "String_split sep [] = [[]]"
| "String_split sep (c # cs) =
     (if c = sep then [] # String_split sep cs
      else (case String_split sep cs of
              [] \<Rightarrow> [[c]]
            | w # ws \<Rightarrow> (c # w) # ws))"

text \<open>\<^verbatim>\<open>sp[i]\<close>: \<^verbatim>\<open>undefined\<close> (here \<open>None\<close>) past the end of the array.\<close>

definition at_index :: "'a list \<Rightarrow> nat \<Rightarrow> 'a option" where
  "at_index xs i = (if i < length xs then Some (xs ! i) else None)"

text \<open>
  The three reads \<^verbatim>\<open>sp[0]\<close>, \<^verbatim>\<open>sp[1]\<close>, \<^verbatim>\<open>sp[2]\<close> of \<^verbatim>\<open>highlight_connections\<close> (lines
  759-762) and \<^verbatim>\<open>unhighlight_connections\<close> (lines 715-718).
\<close>

definition split_key :: "string \<Rightarrow> string option \<times> string option \<times> string option" where
  "split_key k =
     (let sp = String_split (CHR '' '') k
      in (at_index sp 0, at_index sp 1, at_index sp 2))"

subsection \<open>Events, errors and the two listeners on selection\<close>

record event =
  etype :: string
  blockId :: "string option"
  newElementId :: "string option"
  workspaceId :: string

text \<open>
  Truthiness of a string that may be missing: \<^verbatim>\<open>undefined\<close> (here \<open>None\<close>) and the
  empty string are falsy. The listeners test \<^verbatim>\<open>event.blockId\<close> and
  \<^verbatim>\<open>event.newElementId\<close> this way.
\<close>

definition truthy :: "string option \<Rightarrow> bool" where
  "truthy x = (case x of None \<Rightarrow> False | Some s \<Rightarrow> s \<noteq> [])"

text \<open>Reading a property of \<^verbatim>\<open>null\<close> or \<^verbatim>\<open>undefined\<close> throws a \<^verbatim>\<open>TypeError\<close>.\<close>

datatype error = TypeError

datatype side = Mine | Previous

text \<open>
  The calls a listener makes on the workspace-search plug-in of a workspace, in order; a
  block is named by its id.
\<close>

datatype search_call =
    UnhighlightSearchGroup side "string list"
  | HighlightSearchGroup side "string list"
  | HighlightCurrentSelection side string
  | ScrollToVisible side string

text \<open>
  \<^verbatim>\<open>myMineSelection(event)\<close> (lines 586-605): the calls made, and the error thrown if any.
  \<^verbatim>\<open>block.workspace\<close> is read before the first call of the "selected" branch, and
  \<^verbatim>\<open>block\<close> is \<^verbatim>\<open>null\<close> when the previous workspace has no block of that id.
\<close>

definition myMineSelection ::
  "event \<Rightarrow> workspace \<Rightarrow> workspace \<Rightarrow> search_call list \<times> error option" where
  "myMineSelection event mine_workspace previous_workspace =
     (let clicked =
            (if etype event = ''click'' \<and> \<not> truthy (blockId event)
             then [UnhighlightSearchGroup Previous (map block_id (all_blocks previous_workspace))]
             else [])
      in if etype event = ''selected''
         then (case newElementId event of
                 None \<Rightarrow> (clicked, None)
               | Some i \<Rightarrow>
                   if i = [] then (clicked, None)
                   else (case getBlockById previous_workspace i of
                           None \<Rightarrow> (clicked, Some TypeError)
                         | Some block \<Rightarrow>
                             (clicked @
                              [UnhighlightSearchGroup Previous
                                 (map block_id (all_blocks previous_workspace)),
                               HighlightSearchGroup Previous [block_id block],
                               HighlightCurrentSelection Previous (block_id block),
                               ScrollToVisible Previous (block_id block)], None)))
         else (clicked, None))"

text \<open>\<^verbatim>\<open>myPreviousSelection(event)\<close> (lines 607-619).\<close>

definition myPreviousSelection ::
  "event \<Rightarrow> workspace \<Rightarrow> workspace \<Rightarrow> search_call list \<times> error option" where
  "myPreviousSelection event mine_workspace previous_workspace =
     (if etype event = ''selected''
      then (case newElementId event of
              None \<Rightarrow> ([], None)
            | Some i \<Rightarrow>
                if i = [] then ([], None)
                else (case getBlockById mine_workspace i of
                        None \<Rightarrow> ([], Some TypeError)
                      | Some block \<Rightarrow>
                          ([UnhighlightSearchGroup Mine (map block_id (all_blocks mine_workspace)),
                            HighlightSearchGroup Mine [block_id block],
                            HighlightCurrentSelection Mine (block_id block),
                            ScrollToVisible Mine (block_id block)], None)))
      else ([], None))"

subsection \<open>The scroll synchronizer\<close>

datatype scroll_call = ScrollbarSet side rat rat

text \<open>
  \<^verbatim>\<open>scroll(event)\<close> (lines 517-570), with the global \<^verbatim>\<open>busy\<close> passed in and returned, and
  the call of \<^verbatim>\<open>other_workspace.scrollbar.set\<close> returned when it is made. The loop of
  lines 547-557 stops at the first block below the scroll offset; when there is none,
  \<^verbatim>\<open>top_left_block_id\<close> stays \<^verbatim>\<open>undefined\<close> and the lookup of line 559 finds nothing.
\<close>

definition scroll ::
  "event \<Rightarrow> workspace \<Rightarrow> workspace \<Rightarrow> bool \<Rightarrow> bool \<times> scroll_call option" where
  "scroll event mine_workspace previous_workspace busy =
     (if etype event = ''viewport_change''
      then if busy then (False, None)
           else
             (let (other_side, other_workspace, this_workspace) =
                    (if workspaceId event = workspace_id mine_workspace
                     then (Previous, previous_workspace, mine_workspace)
                     else (Mine, mine_workspace, previous_workspace))
              in case find (\<lambda>block. snd (xy block) > - scrollY this_workspace)
                           (all_blocks this_workspace) of
                   None \<Rightarrow> (True, None)
                 | Some top_left_block \<Rightarrow>
                     (case getBlockById other_workspace (block_id top_left_block) of
                        None \<Rightarrow> (True, None)
                      | Some corresponding_block \<Rightarrow>
                          (True, Some (ScrollbarSet other_side
                             (fst (xy corresponding_block) * ws_scale other_workspace
                                - scrollLeft other_workspace)
                             (snd (xy corresponding_block) * ws_scale other_workspace
                                - scrollTop other_workspace
                                - snd (xy top_left_block) - scrollY this_workspace)))))
      else (busy, None))"

subsection \<open>Field states\<close>

text \<open>
  The values a field state holds at run time. An object or array is a reference: it has an
  address, and \<^verbatim>\<open>===\<close> compares addresses; its JSON tree is kept with it. \<open>Inherited\<close>
  stands for a member found on \<^verbatim>\<open>Object.prototype\<close>.
\<close>

datatype jsval =
    Undefined
  | Null
  | Bool bool
  | Num rat
  | Str string
  | Object nat json
  | Inherited string

text \<open>\<^verbatim>\<open>a === b\<close>.\<close>

definition strict_equals :: "jsval \<Rightarrow> jsval \<Rightarrow> bool" where
  "strict_equals v w =
     (case v of
        Object a x \<Rightarrow> (case w of Object b y \<Rightarrow> a = b | _ \<Rightarrow> False)
      | _ \<Rightarrow> (case w of Object b y \<Rightarrow> False | _ \<Rightarrow> v = w))"



text \<open>
  Modelled from the spec: \<^verbatim>\<open>field.saveState(true)\<close> is a method of the Blockly library,
  which is not part of the repository. The specification gives its contract: it returns
  the field's state as a JSON-compatible value. A string, number, boolean or \<^verbatim>\<open>null\<close> is
  returned as it is; an object or array is built anew by every call, so it gets the next
  free address \<open>n\<close>.
\<close>

fun saveState :: "json \<Rightarrow> nat \<Rightarrow> jsval \<times> nat" where
  "saveState JNull n = (Null, n)"
| "saveState (JBool b) n = (Bool b, n)"
| "saveState (JNum x) n = (Num x, n)"
| "saveState (JStr s) n = (Str s, n)"
| "saveState (JArr xs) n = (Object n (JArr xs), Suc n)"
| "saveState (JObj kvs) n = (Object n (JObj kvs), Suc n)"

text \<open>
  A plain JavaScript object: its prototype and its own properties in insertion order.
  \<^verbatim>\<open>Object.create(null)\<close> has no prototype; an object literal has \<^verbatim>\<open>Object.prototype\<close>,
  whose members every lookup of a missing own property finds.
\<close>

datatype prototype = null_prototype | Object_prototype

record js_object =
  prototype_of :: prototype
  own :: "(string \<times> jsval) list"

definition Object_prototype_members :: "string list" where
  "Object_prototype_members =
     [''constructor'', ''hasOwnProperty'', ''isPrototypeOf'', ''propertyIsEnumerable'',
      ''toLocaleString'', ''toString'', ''valueOf'', ''__proto__'',
      ''__defineGetter__'', ''__defineSetter__'', ''__lookupGetter__'', ''__lookupSetter__'']"

definition Object_create_null :: js_object where
  "Object_create_null = \<lparr>prototype_of = null_prototype, own = []\<rparr>"

text \<open>\<^verbatim>\<open>obj[key] = value\<close> on an object whose properties are all plain data properties.\<close>

definition set_property :: "string \<Rightarrow> jsval \<Rightarrow> js_object \<Rightarrow> js_object" where
  "set_property key v obj =
     obj\<lparr>own := (if key \<in> fst ` set (own obj)
                 then map (\<lambda>(k, w). if k = key then (k, v) else (k, w)) (own obj)
                 else own obj @ [(key, v)])\<rparr>"

text \<open>\<^verbatim>\<open>obj[key]\<close>.\<close>

definition get_property :: "js_object \<Rightarrow> string \<Rightarrow> jsval" where
  "get_property obj key =
     (case map_of (own obj) key of
        Some v \<Rightarrow> v
      | None \<Rightarrow>
          (case prototype_of obj of
             null_prototype \<Rightarrow> Undefined
           | Object_prototype \<Rightarrow>
               if key \<in> set Object_prototype_members then Inherited key else Undefined))"

text \<open>
  \<^verbatim>\<open>Object.entries(obj)\<close>: the own properties in insertion order. (JavaScript lists keys
  that are array indices first; the order of the entries plays no part in what follows.)
\<close>

definition Object_entries :: "js_object \<Rightarrow> (string \<times> jsval) list" where
  "Object_entries obj = own obj"

text \<open>
  \<^verbatim>\<open>saveFields(block)\<close> (lines 572-584), with the next free address passed in and returned;
  \<open>save_field\<close> is the body of its inner loop (lines 577-580).
\<close>

definition save_field :: "block_field \<Rightarrow> js_object \<times> nat \<Rightarrow> js_object \<times> nat" where
  "save_field field acc =
     (case acc of
        (fields_obj, n) \<Rightarrow>
          if serializable field
          then (case saveState (fstate field) n of
                  (v, n') \<Rightarrow> (set_property (fname field) v fields_obj, n'))
          else (fields_obj, n))"

definition saveFields :: "block \<Rightarrow> nat \<Rightarrow> js_object \<times> nat" where
  "saveFields block n =
     fold (\<lambda>input acc. fold save_field (fieldRow input) acc)
          (inputList block) (Object_create_null, n)"

text \<open>The test of line 679, \<^verbatim>\<open>previous_state[key]===value\<close>: true is the verdict "equal".\<close>

definition field_verdict :: "js_object \<Rightarrow> string \<Rightarrow> jsval \<Rightarrow> bool" where
  "field_verdict previous_state key v = strict_equals (get_property previous_state key) v"

subsection \<open>Decorations and the highlight driver\<close>

text \<open>
  What the driver changes on the page: the merge classes on a block's path, the highlight
  of a connection (the \<open>j\<close>-th of \<^verbatim>\<open>getConnections_()\<close>) and the class
  \<^verbatim>\<open>blocklyInvalidInput\<close> on the field that \<^verbatim>\<open>getField(name)\<close> finds. The state of the
  page is the set of the marks present.
\<close>

datatype mark =
    BlockClass side string string
  | HighlightPath side string nat
  | InvalidInput side string string

type_synonym decoration = "mark set"

text \<open>
  A piece of the driver changes the decoration and may throw; what it changed before it
  threw stays changed.
\<close>

type_synonym command = "decoration \<Rightarrow> decoration \<times> error option"

definition no_op :: command where
  "no_op d = (d, None)"

definition throw :: "error \<Rightarrow> command" where
  "throw e d = (d, Some e)"

definition seq :: "command \<Rightarrow> command \<Rightarrow> command" where
  "seq f g d = (case f d of (d', None) \<Rightarrow> g d' | (d', Some e) \<Rightarrow> (d', Some e))"

fun for_each :: "('a \<Rightarrow> command) \<Rightarrow> 'a list \<Rightarrow> command" where
  "for_each body [] = no_op"
| "for_each body (x # xs) = seq (body x) (for_each body xs)"

text \<open>
  \<^verbatim>\<open>unhighlightCommon\<close>, \<^verbatim>\<open>highlightMineAdded\<close>, \<^verbatim>\<open>highlightMineRemoved\<close> (lines
  316-331). The argument is what \<^verbatim>\<open>getBlockById\<close> returned, with the workspace it was
  asked of.
\<close>

definition unhighlightCommon :: "side \<Rightarrow> block option \<Rightarrow> command" where
  "unhighlightCommon w currentBlock =
     (case currentBlock of
        None \<Rightarrow> throw TypeError
      | Some b \<Rightarrow>
          (\<lambda>d. (d - {BlockClass w (block_id b) ''blockly-ws-merge-highlight-mine-added''}
                  - {BlockClass w (block_id b) ''blockly-ws-merge-highlight-mine-removed''},
                None)))"

definition highlightMineAdded :: "side \<Rightarrow> block option \<Rightarrow> command" where
  "highlightMineAdded w currentBlock =
     (case currentBlock of
        None \<Rightarrow> throw TypeError
      | Some b \<Rightarrow>
          (\<lambda>d. (insert (BlockClass w (block_id b) ''blockly-ws-merge-highlight-mine-added'') d,
                None)))"

definition highlightMineRemoved :: "side \<Rightarrow> block option \<Rightarrow> command" where
  "highlightMineRemoved w currentBlock =
     (case currentBlock of
        None \<Rightarrow> throw TypeError
      | Some b \<Rightarrow>
          (\<lambda>d. (insert (BlockClass w (block_id b) ''blockly-ws-merge-highlight-mine-removed'') d,
                None)))"

text \<open>
  \<^verbatim>\<open>block.getField(name)\<close> of Blockly: the first field of that name in the inputs' rows,
  \<^verbatim>\<open>null\<close> when there is none.
\<close>

definition getField :: "block \<Rightarrow> string \<Rightarrow> block_field option" where
  "getField block key = find (\<lambda>f. fname f = key) (concat (map fieldRow (inputList block)))"

text \<open>
  \<^verbatim>\<open>apply_valid\<close> and \<^verbatim>\<open>apply_invalid\<close> (lines 693-709). \<^verbatim>\<open>field.getSvgRoot()\<close> throws when
  \<^verbatim>\<open>getField\<close> found no field; a field that is found is taken to be rendered.
\<close>

definition apply_valid :: "side \<Rightarrow> block \<Rightarrow> string \<Rightarrow> command" where
  "apply_valid w block key =
     (case getField block key of
        None \<Rightarrow> throw TypeError
      | Some field \<Rightarrow> (\<lambda>d. (d - {InvalidInput w (block_id block) key}, None)))"

definition apply_invalid :: "side \<Rightarrow> block \<Rightarrow> string \<Rightarrow> command" where
  "apply_invalid w block key =
     (case getField block key of
        None \<Rightarrow> throw TypeError
      | Some field \<Rightarrow> (\<lambda>d. (insert (InvalidInput w (block_id block) key) d, None)))"

text \<open>
  The guarded calls of lines 777-780 and 733-736: \<^verbatim>\<open>connection.highlight()\<close> when there
  is no \<^verbatim>\<open>highlightPath\<close>, \<^verbatim>\<open>connection.unhighlight()\<close> when there is one.
\<close>

definition highlight :: "side \<Rightarrow> block \<Rightarrow> nat \<Rightarrow> command" where
  "highlight w block j d =
     (if HighlightPath w (block_id block) j \<notin> d
      then (insert (HighlightPath w (block_id block) j) d, None)
      else (d, None))"

definition unhighlight :: "side \<Rightarrow> block \<Rightarrow> nat \<Rightarrow> command" where
  "unhighlight w block j d =
     (if HighlightPath w (block_id block) j \<in> d
      then (d - {HighlightPath w (block_id block) j}, None)
      else (d, None))"

text \<open>
  The body that \<^verbatim>\<open>highlight_connections\<close> (lines 755-796) and
  \<^verbatim>\<open>unhighlight_connections\<close> (lines 712-752) share: split the key, look the source
  block up, and visit its next-statement connections whose input has the key's name (or
  that have no input, when the name is \<^verbatim>\<open>'next'\<close>). They differ in the call \<open>act\<close>.
\<close>

definition visit_connections ::
  "(side \<Rightarrow> block \<Rightarrow> nat \<Rightarrow> command) \<Rightarrow> side \<Rightarrow> workspace \<Rightarrow> string \<Rightarrow> command" where
  "visit_connections act w this_workspace k =
     (case split_key k of
        (from_id, input_name, target_id) \<Rightarrow>
          (case (case from_id of None \<Rightarrow> None | Some i \<Rightarrow> getBlockById this_workspace i) of
             None \<Rightarrow> throw TypeError
           | Some block \<Rightarrow>
               for_each
                 (\<lambda>(j, connection).
                    if ctype connection = NEXT_STATEMENT
                    then (case parent_input connection of
                            Some n \<Rightarrow> if Some n = input_name then act w block j else no_op
                          | None \<Rightarrow> if input_name = Some ''next'' then act w block j else no_op)
                    else no_op)
                 (enumerate 0 (connections block))))"

definition highlight_connections :: "string js_set \<Rightarrow> side \<Rightarrow> workspace \<Rightarrow> command" where
  "highlight_connections connections_diff w this_workspace =
     for_each (visit_connections highlight w this_workspace) connections_diff"

definition unhighlight_connections :: "string js_set \<Rightarrow> side \<Rightarrow> workspace \<Rightarrow> command" where
  "unhighlight_connections connections_same w this_workspace =
     for_each (visit_connections unhighlight w this_workspace) connections_same"

text \<open>The body of the loop over the entries of \<^verbatim>\<open>mine_state\<close> (lines 678-689).\<close>

definition diff_field :: "block \<Rightarrow> block \<Rightarrow> js_object \<Rightarrow> string \<times> jsval \<Rightarrow> command" where
  "diff_field mine_block previous_block previous_state entry =
     (case entry of
        (key, v) \<Rightarrow>
          if field_verdict previous_state key v
          then seq (apply_valid Mine mine_block key) (apply_valid Previous previous_block key)
          else seq (apply_invalid Mine mine_block key)
                   (apply_invalid Previous previous_block key))"

text \<open>
  The last loop of \<^verbatim>\<open>show_diffs\<close> (lines 669-690), over the common ids; \<open>n\<close> is the
  next free address. \<^verbatim>\<open>saveFields\<close> reads \<^verbatim>\<open>block.inputList\<close>, so it throws on \<^verbatim>\<open>null\<close>.
\<close>

fun diff_fields :: "workspace \<Rightarrow> workspace \<Rightarrow> string list \<Rightarrow> nat \<Rightarrow> command" where
  "diff_fields mine_workspace previous_workspace [] n = no_op"
| "diff_fields mine_workspace previous_workspace (i # ids) n =
     (case getBlockById mine_workspace i of
        None \<Rightarrow> throw TypeError
      | Some mine_block \<Rightarrow>
          (case getBlockById previous_workspace i of
             None \<Rightarrow> throw TypeError
           | Some previous_block \<Rightarrow>
               (case saveFields mine_block n of
                  (mine_state, n1) \<Rightarrow>
                    (case saveFields previous_block n1 of
                       (previous_state, n2) \<Rightarrow>
                         seq (for_each (diff_field mine_block previous_block previous_state)
                                (Object_entries mine_state))
                             (diff_fields mine_workspace previous_workspace ids n2)))))"

text \<open>\<^verbatim>\<open>show_diffs(event)\<close> (lines 623-691). The event is not read.\<close>

definition show_diffs :: "event \<Rightarrow> workspace \<Rightarrow> workspace \<Rightarrow> command" where
  "show_diffs event mine_workspace previous_workspace =
     (let mine_blocks = all_blocks mine_workspace;
          previous_blocks = all_blocks previous_workspace;
          mine_ids = get_ids mine_blocks;
          previous_ids = get_ids previous_blocks;
          ids_added_mine = difference mine_ids previous_ids;
          ids_removed_mine = difference previous_ids mine_ids;
          ids_common = intersection mine_ids previous_ids;
          mine_connections = get_connections mine_blocks;
          previous_connections = get_connections previous_blocks;
          connections_added_mine = difference mine_connections previous_connections;
          connections_remove_mine = difference previous_connections mine_connections;
          connections_common = intersection previous_connections mine_connections
      in seq (for_each (\<lambda>i. highlightMineAdded Mine (getBlockById mine_workspace i))
                ids_added_mine)
        (seq (for_each (\<lambda>i. highlightMineRemoved Previous (getBlockById previous_workspace i))
                ids_removed_mine)
        (seq (for_each (\<lambda>i. seq (unhighlightCommon Previous (getBlockById previous_workspace i))
                                (unhighlightCommon Mine (getBlockById mine_workspace i)))
                ids_common)
        (seq (highlight_connections connections_added_mine Mine mine_workspace)
        (seq (highlight_connections connections_remove_mine Previous previous_workspace)
        (seq (unhighlight_connections connections_common Mine mine_workspace)
        (seq (unhighlight_connections connections_common Previous previous_workspace)
             (diff_fields mine_workspace previous_workspace ids_common 0))))))))"

subsection \<open>Notions used in the proofs, and sample data\<close>

text \<open>The fields of a block, in the order in which \<^verbatim>\<open>saveFields\<close> and \<^verbatim>\<open>getField\<close> visit them.\<close>

definition all_fields :: "block \<Rightarrow> block_field list" where
  "all_fields block = concat (map fieldRow (inputList block))"

text \<open>
  A value that \<^verbatim>\<open>saveState\<close> can have returned while the next free address went from
  \<open>lo\<close> to \<open>hi\<close>: not \<^verbatim>\<open>undefined\<close>, not inherited, and if an object, one with an address
  in that range.
\<close>

definition fresh_in :: "nat \<Rightarrow> nat \<Rightarrow> jsval \<Rightarrow> bool" where
  "fresh_in lo hi v =
     (case v of Undefined \<Rightarrow> False | Inherited m \<Rightarrow> False
      | Object a x \<Rightarrow> lo \<le> a \<and> a < hi | _ \<Rightarrow> True)"

text \<open>
  A piece of the driver that, whatever the decoration it starts from, removes one fixed set
  of marks, then adds another, and ends the same way (normally or with the same error).
\<close>

definition constant_assignment :: "command \<Rightarrow> bool" where
  "constant_assignment c = (\<exists>R A e. \<forall>d. c d = ((d - R) \<union> A, e))"


definition text_block :: "string \<Rightarrow> block" where
  "text_block s =
     \<lparr>block_id = ''2'',
      inputList = [\<lparr>iname = ''IN'',
                    fieldRow = [\<lparr>fname = ''NAME'', serializable = True, fstate = JStr s\<rparr>]\<rparr>],
      connections = [], xy = (0, 0)\<rparr>"


definition loop_block :: block where
  "loop_block =
     \<lparr>block_id = ''a'', inputList = [],
      connections = [\<lparr>ctype = NEXT_STATEMENT, parent_input = Some ''DO'', target = Some ''b''\<rparr>],
      xy = (0, 0)\<rparr>"

definition scrolled_workspace :: "string \<Rightarrow> rat \<Rightarrow> workspace" where
  "scrolled_workspace w y =
     \<lparr>workspace_id = w,
      all_blocks = [\<lparr>block_id = ''1'', inputList = [], connections = [], xy = (5, y)\<rparr>],
      scrollY = 0, ws_scale = 1, scrollLeft = 0, scrollTop = 0\<rparr>"

text \<open>
  Two small workspaces: block \<^verbatim>\<open>1\<close> is only in mine and is followed by block \<^verbatim>\<open>2\<close>; block
  \<^verbatim>\<open>2\<close> is in both, with a different text in its field \<^verbatim>\<open>NAME\<close>; block \<^verbatim>\<open>4\<close> is only in
  previous.
\<close>

definition sample_mine :: workspace where
  "sample_mine =
     \<lparr>workspace_id = ''mine'',
      all_blocks =
        [\<lparr>block_id = ''1'', inputList = [],
          connections = [\<lparr>ctype = NEXT_STATEMENT, parent_input = None, target = Some ''2''\<rparr>],
          xy = (0, 0)\<rparr>,
         text_block ''x''],
      scrollY = 0, ws_scale = 1, scrollLeft = 0, scrollTop = 0\<rparr>"

definition sample_previous :: workspace where
  "sample_previous =
     \<lparr>workspace_id = ''previous'',
      all_blocks =
        [text_block ''y'',
         \<lparr>block_id = ''4'', inputList = [],
          connections = [\<lparr>ctype = NEXT_STATEMENT, parent_input = None, target = None\<rparr>],
          xy = (0, 0)\<rparr>],
      scrollY = 0, ws_scale = 1, scrollLeft = 0, scrollTop = 0\<rparr>"

subsection \<open>Set algebra\<close>

lemma set_Set_add: "set (Set_add e s) = insert e (set s)"
  by (auto simp: Set_add_def Set_has_def)

lemma set_Set_delete: "set (Set_delete e s) = set s - {e}"
  by (auto simp: Set_delete_def)

lemma set_intersection_fold:
  "set (fold (\<lambda>elem acc. if Set_has setA elem then Set_add elem acc else acc) setB acc0)
     = set acc0 \<union> (set setA \<inter> set setB)"
  by (induction setB arbitrary: acc0) (auto simp: set_Set_add Set_has_def)

lemma set_intersection: "set (intersection setA setB) = set setA \<inter> set setB"
  by (simp add: intersection_def set_intersection_fold)

lemma set_difference_fold: "set (fold Set_delete setB acc0) = set acc0 - set setB"
  by (induction setB arbitrary: acc0) (auto simp: set_Set_delete)

lemma set_difference: "set (difference setA setB) = set setA - set setB"
  by (simp add: difference_def set_difference_fold)

lemma set_get_ids_fold:
  "set (fold (\<lambda>block ids. Set_add (block_id block) ids) blocks acc0)
     = set acc0 \<union> block_id ` set blocks"
  by (induction blocks arbitrary: acc0) (auto simp: set_Set_add)

lemma set_get_ids: "set (get_ids blocks) = block_id ` set blocks"
  by (simp add: get_ids_def set_get_ids_fold)

subsection \<open>Edge keys and their parsing\<close>

lemma fold_Set_add_snoc:
  "fold Set_add xs [] = rev (remdups (rev xs))"
proof (induction xs rule: rev_induct)
  case Nil
  show ?case by simp
next
  case (snoc x xs)
  have "set (rev (remdups (rev xs))) = set xs" by simp
  then show ?case using snoc
    by (simp add: Set_add_def Set_has_def)
qed

lemma inner_fold_keys:
  "fold (\<lambda>connection acc.
           if ctype connection = NEXT_STATEMENT
           then Set_add (edge_key block connection) acc else acc) cs acc
   = fold Set_add (map (edge_key block) (filter (\<lambda>c. ctype c = NEXT_STATEMENT) cs)) acc"
  by (induction cs arbitrary: acc) simp_all

lemma outer_fold_keys:
  "fold (\<lambda>block acc. fold Set_add (f block) acc) blocks acc
   = fold Set_add (concat (map f blocks)) acc"
  by (induction blocks arbitrary: acc) simp_all

lemma get_connections_keys:
  "get_connections blocks =
     rev (remdups (rev (concat (map (\<lambda>block.
        map (edge_key block) (filter (\<lambda>c. ctype c = NEXT_STATEMENT) (connections block))) blocks))))"
  unfolding get_connections_def inner_fold_keys outer_fold_keys fold_Set_add_snoc ..

lemma split_no_sep: "sep \<notin> set a \<Longrightarrow> String_split sep a = [a]"
  by (induction a) auto

lemma split_at_sep:
  "sep \<notin> set a \<Longrightarrow> String_split sep (a @ sep # rest) = a # String_split sep rest"
  by (induction a) auto

subsection \<open>Field states\<close>

lemma fresh_in_mono: "fresh_in lo hi v \<Longrightarrow> hi \<le> hi' \<Longrightarrow> fresh_in lo hi' v"
  by (auto simp: fresh_in_def split: jsval.splits)

lemma saveState_fresh:
  "saveState s n = (v, n') \<Longrightarrow> n \<le> n' \<and> fresh_in n n' v"
  by (cases s) (auto simp: fresh_in_def)

lemma saveState_fresh_from:
  "saveState s n = (v, n') \<Longrightarrow> lo \<le> n \<Longrightarrow> fresh_in lo n' v"
  by (cases s) (auto simp: fresh_in_def)

lemma fold_fieldRow_concat:
  "fold (\<lambda>input acc. fold g (fieldRow input) acc) inputs acc
     = fold g (concat (map fieldRow inputs)) acc"
  by (induction inputs arbitrary: acc) simp_all

lemma saveFields_fold:
  "saveFields block n = fold save_field (all_fields block) (Object_create_null, n)"
  by (simp add: saveFields_def all_fields_def fold_fieldRow_concat)

lemma keys_set_property:
  "fst ` set (own (set_property key v obj)) = insert key (fst ` set (own obj))"
  by (auto simp: set_property_def image_iff split: if_splits) force+

lemma values_set_property:
  "(k, w) \<in> set (own (set_property key v obj)) \<Longrightarrow> w = v \<or> (k, w) \<in> set (own obj)"
  by (auto simp: set_property_def split: if_splits)

lemma proto_set_property: "prototype_of (set_property key v obj) = prototype_of obj"
  by (simp add: set_property_def)

lemma save_field_skip: "\<not> serializable f \<Longrightarrow> save_field f (obj, n) = (obj, n)"
  by (simp add: save_field_def)

lemma save_field_take:
  "serializable f \<Longrightarrow> saveState (fstate f) n = (v, m) \<Longrightarrow>
   save_field f (obj, n) = (set_property (fname f) v obj, m)"
  by (simp add: save_field_def)

lemma fold_save_field_proto:
  "prototype_of (fst (fold save_field fs acc)) = prototype_of (fst acc)"
  by (induction fs arbitrary: acc)
     (auto simp: save_field_def proto_set_property split: prod.splits)

lemma fold_save_field_keys:
  "fst ` set (own (fst (fold save_field fs acc)))
     = fst ` set (own (fst acc)) \<union> fname ` {f \<in> set fs. serializable f}"
proof (induction fs arbitrary: acc)
  case Nil
  show ?case by simp
next
  case (Cons f fs)
  show ?case
    unfolding fold_simps Cons.IH
    by (auto simp: save_field_def keys_set_property split: prod.splits)
qed

lemma fold_save_field_fresh:
  "fold save_field fs (obj, n) = (obj', n') \<Longrightarrow> lo \<le> n \<Longrightarrow>
   (\<forall>(k, w) \<in> set (own obj). fresh_in lo n w) \<Longrightarrow>
   n \<le> n' \<and> (\<forall>(k, w) \<in> set (own obj'). fresh_in lo n' w)"
proof (induction fs arbitrary: obj n)
  case Nil
  then show ?case by simp
next
  case (Cons f fs)
  show ?case
  proof (cases "serializable f")
    case False
    with Cons.prems have "fold save_field fs (obj, n) = (obj', n')"
      by (simp add: save_field_skip)
    from Cons.IH[OF this Cons.prems(2,3)] show ?thesis .
  next
    case True
    obtain v m where sv: "saveState (fstate f) n = (v, m)" by (cases "saveState (fstate f) n")
    with True Cons.prems have step: "fold save_field fs (set_property (fname f) v obj, m) = (obj', n')"
      by (simp add: save_field_take)
    from saveState_fresh[OF sv] have nm: "n \<le> m" and fv: "fresh_in n m v" by auto
    have fv': "fresh_in lo m v" using saveState_fresh_from[OF sv Cons.prems(2)] .
    have inv: "\<forall>(k, w) \<in> set (own (set_property (fname f) v obj)). fresh_in lo m w"
    proof (clarify)
      fix k w assume "(k, w) \<in> set (own (set_property (fname f) v obj))"
      from values_set_property[OF this] show "fresh_in lo m w"
        using fv' Cons.prems(3) nm by (auto intro: fresh_in_mono)
    qed
    have "lo \<le> m" using Cons.prems(2) nm by simp
    from Cons.IH[OF step this inv] nm show ?thesis by auto
  qed
qed


lemma saveFields_le: "saveFields block n = (obj, n') \<Longrightarrow> n \<le> n'"
  using fold_save_field_fresh[of "all_fields block" Object_create_null n obj n' n]
  by (simp add: saveFields_fold Object_create_null_def)

lemma saveFields_proto: "prototype_of (fst (saveFields block n)) = null_prototype"
  by (simp add: saveFields_fold fold_save_field_proto Object_create_null_def)

lemma saveFields_keys:
  "fst ` set (own (fst (saveFields block n)))
     = fname ` {f \<in> set (all_fields block). serializable f}"
  by (simp add: saveFields_fold fold_save_field_keys Object_create_null_def)

lemma get_property_absent:
  "prototype_of obj = null_prototype \<Longrightarrow> key \<notin> fst ` set (own obj) \<Longrightarrow>
   get_property obj key = Undefined"
  by (simp add: get_property_def map_of_eq_None_iff[THEN iffD2])










subsection \<open>Every piece of the driver assigns constants\<close>

lemma constant_assignmentI: "(\<And>d. c d = ((d - R) \<union> A, e)) \<Longrightarrow> constant_assignment c"
  unfolding constant_assignment_def by blast

lemma constant_assignment_idem:
  assumes "constant_assignment c"
  shows "c (fst (c d)) = c d"
proof -
  from assms obtain R A e where c: "\<And>d. c d = ((d - R) \<union> A, e)"
    unfolding constant_assignment_def by blast
  have "((d - R) \<union> A - R) \<union> A = (d - R) \<union> A" by blast
  then show ?thesis by (simp add: c)
qed

lemma ca_no_op: "constant_assignment no_op"
  by (rule constant_assignmentI[of _ "{}" "{}" None]) (simp add: no_op_def)

lemma ca_throw: "constant_assignment (throw e)"
  by (rule constant_assignmentI[of _ "{}" "{}" "Some e"]) (simp add: throw_def)

lemma ca_insert: "constant_assignment (\<lambda>d. (insert m d, None))"
  by (rule constant_assignmentI[of _ "{}" "{m}" None]) simp

lemma ca_remove: "constant_assignment (\<lambda>d. (d - R, None))"
  by (rule constant_assignmentI[of _ R "{}" None]) simp

lemma ca_seq:
  assumes "constant_assignment f" and "constant_assignment g"
  shows "constant_assignment (seq f g)"
proof -
  from assms(1) obtain R A e where f: "\<And>d. f d = ((d - R) \<union> A, e)"
    unfolding constant_assignment_def by blast
  from assms(2) obtain R' A' e' where g: "\<And>d. g d = ((d - R') \<union> A', e')"
    unfolding constant_assignment_def by blast
  show ?thesis
  proof (cases e)
    case None
    have "((d - R) \<union> A - R') \<union> A' = (d - (R \<union> R')) \<union> ((A - R') \<union> A')" for d by blast
    then have "seq f g d = ((d - (R \<union> R')) \<union> ((A - R') \<union> A'), e')" for d
      by (simp add: seq_def f g None)
    then show ?thesis by (rule constant_assignmentI)
  next
    case (Some x)
    have "seq f g d = ((d - R) \<union> A, Some x)" for d
      by (simp add: seq_def f Some)
    then show ?thesis by (rule constant_assignmentI)
  qed
qed

lemma ca_for_each:
  assumes "\<And>x. constant_assignment (body x)"
  shows "constant_assignment (for_each body xs)"
  by (induction xs) (simp_all add: ca_no_op ca_seq assms)

lemma ca_unhighlightCommon: "constant_assignment (unhighlightCommon w b)"
proof (cases b)
  case None
  then show ?thesis by (simp add: unhighlightCommon_def ca_throw)
next
  case (Some blk)
  have "(\<lambda>d. (d - {BlockClass w (block_id blk) ''blockly-ws-merge-highlight-mine-added''}
                  - {BlockClass w (block_id blk) ''blockly-ws-merge-highlight-mine-removed''},
                None :: error option))
        = (\<lambda>d. (d - {BlockClass w (block_id blk) ''blockly-ws-merge-highlight-mine-added'',
                       BlockClass w (block_id blk) ''blockly-ws-merge-highlight-mine-removed''}, None))"
    by (rule ext) auto
  then show ?thesis using Some by (simp add: unhighlightCommon_def ca_remove)
qed

lemma ca_highlightMineAdded: "constant_assignment (highlightMineAdded w b)"
  by (cases b) (simp_all add: highlightMineAdded_def ca_throw ca_insert)

lemma ca_highlightMineRemoved: "constant_assignment (highlightMineRemoved w b)"
  by (cases b) (simp_all add: highlightMineRemoved_def ca_throw ca_insert)

lemma ca_apply_valid: "constant_assignment (apply_valid w b key)"
  by (cases "getField b key") (simp_all add: apply_valid_def ca_throw ca_remove)

lemma ca_apply_invalid: "constant_assignment (apply_invalid w b key)"
  by (cases "getField b key") (simp_all add: apply_invalid_def ca_throw ca_insert)

lemma ca_highlight: "constant_assignment (highlight w b j)"
  by (rule constant_assignmentI[of _ "{}" "{HighlightPath w (block_id b) j}" None])
     (auto simp: highlight_def)

lemma ca_unhighlight: "constant_assignment (unhighlight w b j)"
  by (rule constant_assignmentI[of _ "{HighlightPath w (block_id b) j}" "{}" None])
     (auto simp: unhighlight_def)

lemma ca_visit_connections:
  assumes "\<And>w b j. constant_assignment (act w b j)"
  shows "constant_assignment (visit_connections act w ws k)"
proof -
  obtain from_id input_name target_id where sk: "split_key k = (from_id, input_name, target_id)"
    by (cases "split_key k")
  show ?thesis
  proof (cases "case from_id of None \<Rightarrow> None | Some i \<Rightarrow> getBlockById ws i")
    case None
    then show ?thesis by (simp add: visit_connections_def sk ca_throw)
  next
    case (Some blk)
    define body :: "nat \<times> connection \<Rightarrow> command" where "body =
         (\<lambda>(j, connection).
               if ctype connection = NEXT_STATEMENT
               then (case parent_input connection of
                       Some n \<Rightarrow> if Some n = input_name then act w blk j else no_op
                     | None \<Rightarrow> if input_name = Some ''next'' then act w blk j else no_op)
               else no_op)"
    have "constant_assignment (body x)" for x
      by (cases x) (simp add: body_def ca_no_op assms split: option.split)
    then have "constant_assignment (for_each body (enumerate 0 (connections blk)))"
      by (rule ca_for_each)
    moreover have "visit_connections act w ws k = for_each body (enumerate 0 (connections blk))"
      using Some by (simp add: visit_connections_def sk body_def)
    ultimately show ?thesis by simp
  qed
qed

lemma ca_highlight_connections: "constant_assignment (highlight_connections ks w ws)"
  by (simp add: highlight_connections_def ca_for_each ca_visit_connections ca_highlight)

lemma ca_unhighlight_connections: "constant_assignment (unhighlight_connections ks w ws)"
  by (simp add: unhighlight_connections_def ca_for_each ca_visit_connections ca_unhighlight)

lemma ca_diff_field: "constant_assignment (diff_field mb pb ps entry)"
  by (cases entry) (simp add: diff_field_def ca_seq ca_apply_valid ca_apply_invalid)

lemma ca_diff_fields: "constant_assignment (diff_fields m p ids n)"
proof (induction ids arbitrary: n)
  case Nil
  show ?case by (simp add: ca_no_op)
next
  case (Cons i ids)
  show ?case
    by (simp add: ca_throw ca_seq ca_for_each ca_diff_field Cons.IH
        split: option.split prod.split)
qed

subsection \<open>A run of the driver\<close>

text \<open>
  On the two sample workspaces, starting with a stale "added" class on the common block:
  the added and the removed block get their class, the stale class goes, the two
  connections that differ are highlighted, and the field that differs is marked invalid on
  both sides.
\<close>

lemma sample_ids:
  "get_ids (all_blocks sample_mine) = [''1'', ''2'']"
  "get_ids (all_blocks sample_previous) = [''2'', ''4'']"
  by (simp_all add: get_ids_def sample_mine_def sample_previous_def text_block_def
      Set_add_def Set_has_def)

lemma sample_connections:
  "get_connections (all_blocks sample_mine) = [''1 next 2'']"
  "get_connections (all_blocks sample_previous) = [''4 next none'']"
  by (simp_all add: get_connections_def sample_mine_def sample_previous_def text_block_def
      edge_key_def connection_name_def connection_target_id_def Set_add_def Set_has_def)

lemma show_diffs_sample:
  "show_diffs ev sample_mine sample_previous
     {BlockClass Mine ''2'' ''blockly-ws-merge-highlight-mine-added''}
   = ({BlockClass Mine ''1'' ''blockly-ws-merge-highlight-mine-added'',
       BlockClass Previous ''4'' ''blockly-ws-merge-highlight-mine-removed'',
       HighlightPath Mine ''1'' 0, HighlightPath Previous ''4'' 0,
       InvalidInput Mine ''2'' ''NAME'', InvalidInput Previous ''2'' ''NAME''}, None)"
  unfolding show_diffs_def Let_def sample_ids sample_connections
  by (simp add: difference_def intersection_def Set_delete_def Set_add_def Set_has_def
      seq_def no_op_def throw_def highlightMineAdded_def highlightMineRemoved_def
      unhighlightCommon_def highlight_connections_def unhighlight_connections_def
      visit_connections_def split_key_def at_index_def getBlockById_def
      sample_mine_def sample_previous_def text_block_def highlight_def unhighlight_def
      saveFields_def save_field_def set_property_def Object_create_null_def Object_entries_def
      diff_field_def field_verdict_def get_property_def strict_equals_def
      apply_valid_def apply_invalid_def getField_def insert_commute)

subsection \<open>The claims of the specification\<close>

text \<open>
  Claim C1. For any two workspaces, the three id sets that \<^verbatim>\<open>show_diffs\<close> computes (lines
  629-634), added = difference(mine, previous), removed = difference(previous, mine) and
  common = intersection(mine, previous), are pairwise disjoint, and together they are
  exactly the ids of the blocks of the two workspaces.
\<close>

theorem ids_partition:
  "set (difference (get_ids (all_blocks mine)) (get_ids (all_blocks previous)))
       \<inter> set (difference (get_ids (all_blocks previous)) (get_ids (all_blocks mine))) = {}
   \<and> set (difference (get_ids (all_blocks mine)) (get_ids (all_blocks previous)))
       \<inter> set (intersection (get_ids (all_blocks mine)) (get_ids (all_blocks previous))) = {}
   \<and> set (difference (get_ids (all_blocks previous)) (get_ids (all_blocks mine)))
       \<inter> set (intersection (get_ids (all_blocks mine)) (get_ids (all_blocks previous))) = {}
   \<and> set (difference (get_ids (all_blocks mine)) (get_ids (all_blocks previous)))
       \<union> set (difference (get_ids (all_blocks previous)) (get_ids (all_blocks mine)))
       \<union> set (intersection (get_ids (all_blocks mine)) (get_ids (all_blocks previous)))
      = block_id ` set (all_blocks mine) \<union> block_id ` set (all_blocks previous)"
  unfolding set_difference set_intersection set_get_ids by blast




text \<open>
  Claim C3 does not hold of the code. A "selected" event of the mine workspace names block
  "1", which the previous workspace does not have: \<^verbatim>\<open>getBlockById\<close> returns \<^verbatim>\<open>null\<close>, and
  \<^verbatim>\<open>myMineSelection\<close> throws a \<^verbatim>\<open>TypeError\<close> on \<^verbatim>\<open>block.workspace\<close> before it makes any
  call. \<^verbatim>\<open>myPreviousSelection\<close> does the same in the other direction.
\<close>

theorem selection_missing_block_throws:
  "myMineSelection
     \<lparr>etype = ''selected'', blockId = None, newElementId = Some ''1'', workspaceId = ''mine''\<rparr>
     \<lparr>workspace_id = ''mine'',
      all_blocks = [\<lparr>block_id = ''1'', inputList = [], connections = [], xy = (0, 0)\<rparr>],
      scrollY = 0, ws_scale = 1, scrollLeft = 0, scrollTop = 0\<rparr>
     \<lparr>workspace_id = ''previous'', all_blocks = [],
      scrollY = 0, ws_scale = 1, scrollLeft = 0, scrollTop = 0\<rparr>
     = ([], Some TypeError)
   \<and> myPreviousSelection
     \<lparr>etype = ''selected'', blockId = None, newElementId = Some ''4'', workspaceId = ''previous''\<rparr>
     \<lparr>workspace_id = ''mine'', all_blocks = [],
      scrollY = 0, ws_scale = 1, scrollLeft = 0, scrollTop = 0\<rparr>
     \<lparr>workspace_id = ''previous'',
      all_blocks = [\<lparr>block_id = ''4'', inputList = [], connections = [], xy = (0, 0)\<rparr>],
      scrollY = 0, ws_scale = 1, scrollLeft = 0, scrollTop = 0\<rparr>
     = ([], Some TypeError)"
  by (simp add: myMineSelection_def myPreviousSelection_def getBlockById_def truthy_def)

text \<open>
  Claim C4. \<^verbatim>\<open>get_connections\<close> emits one key for each next-statement connection of each
  block, attached or not: the source block's id, the parent input's name or \<^verbatim>\<open>next\<close>, the
  target block's id or \<^verbatim>\<open>none\<close>, joined by single spaces. The result is the set of these
  keys, in the order of their first emission. In particular block \<^verbatim>\<open>a\<close>, connected to block
  \<^verbatim>\<open>b\<close> through the input \<^verbatim>\<open>DO\<close>, yields the key \<^verbatim>\<open>a DO b\<close>.
\<close>

theorem edge_keys_emitted:
  "get_connections blocks =
     rev (remdups (rev (concat (map (\<lambda>block.
        map (\<lambda>connection.
               block_id block @ '' ''
                 @ (case parent_input connection of Some n \<Rightarrow> n | None \<Rightarrow> ''next'') @ '' ''
                 @ (case target connection of Some t \<Rightarrow> t | None \<Rightarrow> ''none''))
            (filter (\<lambda>connection. ctype connection = NEXT_STATEMENT) (connections block)))
        blocks))))
   \<and> get_connections
        [\<lparr>block_id = ''a'', inputList = [],
          connections = [\<lparr>ctype = NEXT_STATEMENT, parent_input = Some ''DO'',
                           target = Some ''b''\<rparr>],
          xy = (0, 0)\<rparr>,
         \<lparr>block_id = ''b'', inputList = [],
          connections = [\<lparr>ctype = PREVIOUS_STATEMENT, parent_input = None, target = Some ''a''\<rparr>,
                         \<lparr>ctype = NEXT_STATEMENT, parent_input = None, target = None\<rparr>],
          xy = (0, 0)\<rparr>] = [''a DO b'', ''b next none'']"
proof -
  have ek: "edge_key block =
      (\<lambda>connection.
         block_id block @ '' ''
           @ (case parent_input connection of Some n \<Rightarrow> n | None \<Rightarrow> ''next'') @ '' ''
           @ (case target connection of Some t \<Rightarrow> t | None \<Rightarrow> ''none''))" for block
    by (rule ext) (simp add: edge_key_def connection_name_def connection_target_id_def)
  have general: "get_connections blocks =
     rev (remdups (rev (concat (map (\<lambda>block.
        map (\<lambda>connection.
               block_id block @ '' ''
                 @ (case parent_input connection of Some n \<Rightarrow> n | None \<Rightarrow> ''next'') @ '' ''
                 @ (case target connection of Some t \<Rightarrow> t | None \<Rightarrow> ''none''))
            (filter (\<lambda>connection. ctype connection = NEXT_STATEMENT) (connections block)))
        blocks))))"
    unfolding get_connections_keys ek ..
  have scenario: "get_connections
        [\<lparr>block_id = ''a'', inputList = [],
          connections = [\<lparr>ctype = NEXT_STATEMENT, parent_input = Some ''DO'',
                           target = Some ''b''\<rparr>],
          xy = (0, 0)\<rparr>,
         \<lparr>block_id = ''b'', inputList = [],
          connections = [\<lparr>ctype = PREVIOUS_STATEMENT, parent_input = None, target = Some ''a''\<rparr>,
                         \<lparr>ctype = NEXT_STATEMENT, parent_input = None, target = None\<rparr>],
          xy = (0, 0)\<rparr>] = [''a DO b'', ''b next none'']"
    by (simp add: get_connections_def edge_key_def connection_name_def connection_target_id_def
        Set_add_def Set_has_def)
  from general scenario show ?thesis by (rule conjI)
qed

text \<open>
  Claim C9. When the source block's id, the slot name and the target id of a next-statement
  connection hold no space, the key that \<^verbatim>\<open>get_connections\<close> emits for it splits on single
  spaces into exactly these three components, which are what \<^verbatim>\<open>sp[0]\<close>, \<^verbatim>\<open>sp[1]\<close> and
  \<^verbatim>\<open>sp[2]\<close> read in \<^verbatim>\<open>highlight_connections\<close> and \<^verbatim>\<open>unhighlight_connections\<close>.
\<close>

theorem edge_key_round_trip:
  assumes "block \<in> set blocks" and "connection \<in> set (connections block)"
    and "ctype connection = NEXT_STATEMENT"
    and "CHR '' '' \<notin> set (block_id block)"
    and "CHR '' '' \<notin> set (connection_name connection)"
    and "CHR '' '' \<notin> set (connection_target_id connection)"
  shows "edge_key block connection \<in> set (get_connections blocks)
       \<and> String_split (CHR '' '') (edge_key block connection)
           = [block_id block, connection_name connection, connection_target_id connection]
       \<and> split_key (edge_key block connection)
           = (Some (block_id block), Some (connection_name connection),
              Some (connection_target_id connection))"
proof -
  have mem: "edge_key block connection \<in> set (get_connections blocks)"
    unfolding get_connections_keys using assms(1-3) by auto
  have sp: "String_split (CHR '' '') (edge_key block connection)
           = [block_id block, connection_name connection, connection_target_id connection]"
    using assms(4-6) by (simp add: edge_key_def split_at_sep split_no_sep)
  from mem sp show ?thesis by (simp add: split_key_def at_index_def)
qed

theorem edge_key_round_trip_witness:
  "edge_key loop_block \<lparr>ctype = NEXT_STATEMENT, parent_input = Some ''DO'', target = Some ''b''\<rparr>
     = ''a DO b''
   \<and> ''a DO b'' \<in> set (get_connections [loop_block])
   \<and> String_split (CHR '' '') ''a DO b'' = [''a'', ''DO'', ''b'']
   \<and> split_key ''a DO b'' = (Some ''a'', Some ''DO'', Some ''b'')"
  using edge_key_round_trip[of loop_block "[loop_block]"
      "\<lparr>ctype = NEXT_STATEMENT, parent_input = Some ''DO'', target = Some ''b''\<rparr>"]
  by (simp add: loop_block_def edge_key_def connection_name_def connection_target_id_def)

text \<open>
  Claim C7. Let the flag \<^verbatim>\<open>busy\<close> be false, and let a viewport-change event make
  \<^verbatim>\<open>scroll\<close> issue a scroll command on the other workspace. Then the flag is set, and the
  next viewport-change event, whatever the workspaces have become, issues no command and
  clears the flag: the flag suppresses that event and no other.
\<close>

theorem scroll_echo_suppressed:
  assumes "etype e1 = ''viewport_change''"
    and "scroll e1 mine previous False = (busy1, Some call)"
    and "etype e2 = ''viewport_change''"
  shows "busy1 \<and> scroll e2 mine' previous' busy1 = (False, None)"
proof -
  from assms(1,2) have "busy1"
    by (auto simp: scroll_def Let_def split: if_splits option.splits prod.splits)
  with assms(3) show ?thesis by (simp add: scroll_def)
qed

theorem scroll_echo_suppressed_witness:
  "scroll \<lparr>etype = ''viewport_change'', blockId = None, newElementId = None,
           workspaceId = ''mine''\<rparr>
      (scrolled_workspace ''mine'' 10) (scrolled_workspace ''previous'' 30) False
     = (True, Some (ScrollbarSet Previous 5 20))
   \<and> scroll \<lparr>etype = ''viewport_change'', blockId = None, newElementId = None,
             workspaceId = ''previous''\<rparr>
      (scrolled_workspace ''mine'' 10) (scrolled_workspace ''previous'' 30) True
     = (False, None)"
proof -
  have a: "scroll \<lparr>etype = ''viewport_change'', blockId = None, newElementId = None,
           workspaceId = ''mine''\<rparr>
      (scrolled_workspace ''mine'' 10) (scrolled_workspace ''previous'' 30) False
     = (True, Some (ScrollbarSet Previous 5 20))"
    by (simp add: scroll_def scrolled_workspace_def getBlockById_def)
  from scroll_echo_suppressed[OF _ a, of
      "\<lparr>etype = ''viewport_change'', blockId = None, newElementId = None,
             workspaceId = ''previous''\<rparr>" "scrolled_workspace ''mine'' 10"
      "scrolled_workspace ''previous'' 30"] a
  show ?thesis by simp
qed

text \<open>
  Claim C8. For all sets A and B, intersection(A, B) and intersection(B, A) have the same
  members, difference(A, B) shares no member with B, and both operations return the empty
  set on empty inputs.
\<close>

theorem set_algebra_laws:
  "set (intersection A B) = set (intersection B A)
   \<and> set (difference A B) \<inter> set B = {}
   \<and> intersection [] B = [] \<and> intersection A [] = []
   \<and> difference [] B = [] \<and> difference A [] = A"
proof -
  have comm: "set (intersection A B) = set (intersection B A)"
    unfolding set_intersection by blast
  have disj: "set (difference A B) \<inter> set B = {}"
    unfolding set_difference by blast
  have e1: "intersection [] B = []"
    unfolding intersection_def by (induction B) (simp_all add: Set_has_def)
  have e2: "intersection A [] = []"
    by (simp add: intersection_def)
  have e3: "difference [] B = []"
    unfolding difference_def by (induction B) (simp_all add: Set_delete_def)
  have e4: "difference A [] = A"
    by (simp add: difference_def)
  from comm disj e1 e2 e3 e4 show ?thesis by blast
qed

text \<open>
  Claim C5. Running \<^verbatim>\<open>show_diffs\<close> a second time on the same two workspaces, from the
  decoration that the first run left, leaves the same decoration (block classes,
  connection highlights, invalid-field marks) and ends as the first run did.
\<close>

theorem show_diffs_idempotent:
  "show_diffs event mine_workspace previous_workspace
     (fst (show_diffs event mine_workspace previous_workspace d))
   = show_diffs event mine_workspace previous_workspace d"
proof -
  have "constant_assignment (show_diffs event mine_workspace previous_workspace)"
    unfolding show_diffs_def Let_def
    by (intro ca_seq ca_for_each ca_highlightMineAdded ca_highlightMineRemoved
        ca_unhighlightCommon ca_highlight_connections ca_unhighlight_connections
        ca_diff_fields)
  then show ?thesis by (rule constant_assignment_idem)
qed



text \<open>
  Claim C10. The object that \<^verbatim>\<open>saveFields\<close> returns has no prototype. Looking up a name
  that is not the name of a serializable field of the block gives \<^verbatim>\<open>undefined\<close>, also
  for a name such as \<^verbatim>\<open>toString\<close> or \<^verbatim>\<open>constructor\<close> that \<^verbatim>\<open>Object.prototype\<close> has, so
  the test of line 679 against any serialized value is false for it.
\<close>

theorem saveFields_no_inherited:
  assumes "\<forall>input \<in> set (inputList block). \<forall>field \<in> set (fieldRow input).
             serializable field \<longrightarrow> fname field \<noteq> key"
  shows "prototype_of (fst (saveFields block n)) = null_prototype
       \<and> get_property (fst (saveFields block n)) key = Undefined
       \<and> \<not> field_verdict (fst (saveFields block n)) key (fst (saveState s m))"
proof -
  have proto: "prototype_of (fst (saveFields block n)) = null_prototype"
    by (rule saveFields_proto)
  from assms have "key \<notin> fst ` set (own (fst (saveFields block n)))"
    unfolding saveFields_keys by (auto simp: all_fields_def)
  with proto have undef: "get_property (fst (saveFields block n)) key = Undefined"
    by (rule get_property_absent)
  obtain v m' where sv: "saveState s m = (v, m')" by (cases "saveState s m")
  from saveState_fresh[OF sv] have "v \<noteq> Undefined" by (auto simp: fresh_in_def)
  then have "\<not> strict_equals Undefined v"
    by (auto simp: strict_equals_def split: jsval.splits)
  with proto undef sv show ?thesis by (simp add: field_verdict_def)
qed

theorem saveFields_no_inherited_witness:
  "get_property (fst (saveFields (text_block ''x'') 0)) ''toString'' = Undefined
   \<and> get_property (fst (saveFields (text_block ''x'') 0)) ''constructor'' = Undefined
   \<and> \<not> field_verdict (fst (saveFields (text_block ''x'') 0)) ''toString'' (Str ''x'')
   \<and> get_property \<lparr>prototype_of = Object_prototype, own = [(''NAME'', Str ''x'')]\<rparr> ''toString''
       = Inherited ''toString''"
  using saveFields_no_inherited[of "text_block ''x''" "''toString''" 0 "JStr ''x''" 0]
    saveFields_no_inherited[of "text_block ''x''" "''constructor''" 0 "JStr ''x''" 0]
  by (simp add: text_block_def get_property_def Object_prototype_members_def)

end
